theory Spec2Isabelle
  imports Complex_Main
begin

section \<open>Floating-point numbers\<close>

text \<open>
  The module \<^verbatim>\<open>datashader/core.py\<close> computes with Python integers and with IEEE 754
  binary64 numbers (Python's \<^verbatim>\<open>float\<close>, numpy's \<^verbatim>\<open>float64\<close>). A finite float is a real number
  \<open>m * 2\<^sup>e\<close> with an integer \<open>m\<close> of at most 53 bits and \<open>- 1074 \<le> e \<le> 971\<close>; every
  operation rounds its exact result to the nearest float, ties to the even one, and
  overflows to an infinity. The sign of a zero is not kept: the model has one zero.
\<close>

definition two_to :: "int \<Rightarrow> real" where
  "two_to e = 2 powr of_int e"

definition is_float64 :: "real \<Rightarrow> bool" where
  "is_float64 x \<longleftrightarrow>
     (\<exists>m e :: int. \<bar>m\<bar> < 2 ^ 53 \<and> - 1074 \<le> e \<and> e \<le> 971 \<and> x = of_int m * two_to e)"

typedef float64 = "{x :: real. is_float64 x}"
  morphisms val float64_of
proof
  have "(0::real) = of_int 0 * two_to 0" by simp
  then have "is_float64 0" unfolding is_float64_def by (intro exI[of _ 0]) simp
  then show "0 \<in> {x :: real. is_float64 x}" by simp
qed

setup_lifting type_definition_float64

instantiation float64 :: zero
begin

lift_definition zero_float64 :: float64 is 0
proof -
  have "(0::real) = of_int 0 * two_to 0" by simp
  then show "is_float64 0" unfolding is_float64_def by (intro exI[of _ 0]) simp
qed

instance ..

end

datatype pyfloat = Fin float64 | PInf | NInf | NaN

text \<open>Rounding to the nearest integer, ties to the even one.\<close>

definition rne :: "real \<Rightarrow> int" where
  "rne q =
     (let f = \<lfloor>q\<rfloor> in
      if q - of_int f < 1 / 2 then f
      else if 1 / 2 < q - of_int f then f + 1
      else if even f then f else f + 1)"

text \<open>
  The exponent of the last place of the floats around \<open>x\<close>: 53 bits below the leading
  bit of \<open>x\<close>, and \<open>- 1074\<close> in the subnormal range.
\<close>

definition ulp_exp :: "real \<Rightarrow> int" where
  "ulp_exp x = max (\<lfloor>log 2 \<bar>x\<bar>\<rfloor> - 52) (- 1074)"

text \<open>Rounding a real to 53 bits, with the exponent not bounded above.\<close>

definition round64 :: "real \<Rightarrow> real" where
  "round64 x = of_int (rne (x / two_to (ulp_exp x))) * two_to (ulp_exp x)"

text \<open>
  The float64 result of an operation whose exact result is \<open>x\<close>: the rounded value, or
  an infinity when the rounded value is beyond the largest float.
\<close>

definition fl :: "real \<Rightarrow> pyfloat" where
  "fl x =
     (let y = round64 x in
      if two_to 1024 \<le> y then PInf
      else if y \<le> - two_to 1024 then NInf
      else Fin (float64_of y))"

text \<open>The exceptions that reach the caller of the module.\<close>

datatype exn =
    ZeroDivisionError
  | KeyError string
  | ValueError string
  | Raised string  \<comment> \<open>an exception raised inside an external collaborator\<close>

text \<open>Unary minus, subtraction and multiplication of floats (they never raise).\<close>

fun float_neg :: "pyfloat \<Rightarrow> pyfloat" where
  "float_neg (Fin a) = fl (- val a)"
| "float_neg PInf = NInf"
| "float_neg NInf = PInf"
| "float_neg NaN = NaN"

fun float_sub :: "pyfloat \<Rightarrow> pyfloat \<Rightarrow> pyfloat" where
  "float_sub NaN y = NaN"
| "float_sub x NaN = NaN"
| "float_sub (Fin a) (Fin b) = fl (val a - val b)"
| "float_sub (Fin a) PInf = NInf"
| "float_sub (Fin a) NInf = PInf"
| "float_sub PInf PInf = NaN"
| "float_sub PInf y = PInf"
| "float_sub NInf NInf = NaN"
| "float_sub NInf y = NInf"

fun float_mul :: "pyfloat \<Rightarrow> pyfloat \<Rightarrow> pyfloat" where
  "float_mul NaN y = NaN"
| "float_mul x NaN = NaN"
| "float_mul (Fin a) (Fin b) = fl (val a * val b)"
| "float_mul (Fin a) PInf = (if val a = 0 then NaN else if 0 < val a then PInf else NInf)"
| "float_mul (Fin a) NInf = (if val a = 0 then NaN else if 0 < val a then NInf else PInf)"
| "float_mul PInf (Fin b) = (if val b = 0 then NaN else if 0 < val b then PInf else NInf)"
| "float_mul NInf (Fin b) = (if val b = 0 then NaN else if 0 < val b then NInf else PInf)"
| "float_mul PInf PInf = PInf"
| "float_mul PInf NInf = NInf"
| "float_mul NInf PInf = NInf"
| "float_mul NInf NInf = PInf"

text \<open>
  The IEEE quotient. A zero divisor is taken as \<^verbatim>\<open>+0.0\<close>: the model has one zero.
\<close>

fun float_div :: "pyfloat \<Rightarrow> pyfloat \<Rightarrow> pyfloat" where
  "float_div NaN y = NaN"
| "float_div x NaN = NaN"
| "float_div (Fin a) (Fin b) =
     (if val b = 0 then (if val a = 0 then NaN else if 0 < val a then PInf else NInf)
      else fl (val a / val b))"
| "float_div (Fin a) PInf = Fin 0"
| "float_div (Fin a) NInf = Fin 0"
| "float_div PInf (Fin b) = (if val b < 0 then NInf else PInf)"
| "float_div NInf (Fin b) = (if val b < 0 then PInf else NInf)"
| "float_div PInf PInf = NaN"
| "float_div PInf NInf = NaN"
| "float_div NInf PInf = NaN"
| "float_div NInf NInf = NaN"

text \<open>
  Python's \<^verbatim>\<open>a / b\<close> on two floats (true division, the module imports \<^verbatim>\<open>division\<close> from
  \<^verbatim>\<open>__future__\<close>): a zero divisor raises \<^verbatim>\<open>ZeroDivisionError\<close>, whatever the dividend.
\<close>

definition py_truediv :: "pyfloat \<Rightarrow> pyfloat \<Rightarrow> exn + pyfloat" where
  "py_truediv a b = (if b = Fin 0 then Inl ZeroDivisionError else Inr (float_div a b))"

text \<open>
  numpy's \<^verbatim>\<open>array / b\<close>, at one element: the IEEE quotient; a zero divisor gives an
  infinity or NaN (numpy warns and does not raise).
\<close>

definition np_true_divide :: "pyfloat \<Rightarrow> pyfloat \<Rightarrow> pyfloat" where
  "np_true_divide a b = float_div a b"

text \<open>
  \<^verbatim>\<open>np.log10(x)\<close> and \<^verbatim>\<open>10**x\<close> on floats, taken as correctly rounded. The logarithm of zero
  is \<^verbatim>\<open>-inf\<close> and the logarithm of a negative number is NaN; neither raises. A power
  beyond the largest float is \<^verbatim>\<open>inf\<close>.
\<close>

fun np_log10 :: "pyfloat \<Rightarrow> pyfloat" where
  "np_log10 (Fin a) =
     (if 0 < val a then fl (log 10 (val a)) else if val a = 0 then NInf else NaN)"
| "np_log10 PInf = PInf"
| "np_log10 NInf = NaN"
| "np_log10 NaN = NaN"

fun pow10 :: "pyfloat \<Rightarrow> pyfloat" where
  "pow10 (Fin a) = fl (10 powr val a)"
| "pow10 PInf = PInf"
| "pow10 NInf = Fin 0"
| "pow10 NaN = NaN"


section \<open>Python numbers\<close>

text \<open>
  A bound of a range is a Python \<^verbatim>\<open>int\<close> or a \<^verbatim>\<open>float\<close>. Integers are exact and unbounded;
  an operation on an integer and a float converts the integer to the nearest float
  first. Python refuses to convert an integer beyond the largest float, and the
  compiled mappers accept integers of 64 bits only: the integers meant here (bounds,
  pixel counts) are far below either limit.
\<close>

datatype number = PyInt int | PyFloat pyfloat

fun to_float :: "number \<Rightarrow> pyfloat" where
  "to_float (PyInt i) = fl (of_int i)"
| "to_float (PyFloat x) = x"

fun is_int :: "number \<Rightarrow> bool" where
  "is_int (PyInt i) = True"
| "is_int (PyFloat x) = False"

text \<open>Whether a number is zero: the integer \<^verbatim>\<open>0\<close> or the float \<^verbatim>\<open>0.0\<close>.\<close>

fun is_zero :: "number \<Rightarrow> bool" where
  "is_zero (PyInt i) = (i = 0)"
| "is_zero (PyFloat x) = (x = Fin 0)"

text \<open>\<^verbatim>\<open>-a\<close> and \<^verbatim>\<open>a - b\<close>.\<close>

fun num_neg :: "number \<Rightarrow> number" where
  "num_neg (PyInt i) = PyInt (- i)"
| "num_neg (PyFloat x) = PyFloat (float_neg x)"

fun num_sub :: "number \<Rightarrow> number \<Rightarrow> number" where
  "num_sub (PyInt i) (PyInt j) = PyInt (i - j)"
| "num_sub a b = PyFloat (float_sub (to_float a) (to_float b))"

text \<open>
  The quotient \<^verbatim>\<open>a / b\<close> for a divisor that is not zero: always a float; of two
  integers, the exact quotient rounded once.
\<close>

fun num_div :: "number \<Rightarrow> number \<Rightarrow> pyfloat" where
  "num_div (PyInt i) (PyInt j) = fl (of_int i / of_int j)"
| "num_div a b = float_div (to_float a) (to_float b)"

text \<open>\<^verbatim>\<open>a / b\<close>: a zero divisor raises \<^verbatim>\<open>ZeroDivisionError\<close>.\<close>

definition num_truediv :: "number \<Rightarrow> number \<Rightarrow> exn + pyfloat" where
  "num_truediv a b = (if is_zero b then Inl ZeroDivisionError else Inr (num_div a b))"

text \<open>
  Python's \<^verbatim>\<open>==\<close> and \<^verbatim>\<open>!=\<close> on numbers: an integer and a float are compared by their
  exact values; NaN equals nothing, itself included.
\<close>

fun py_eq :: "number \<Rightarrow> number \<Rightarrow> bool" where
  "py_eq (PyInt i) (PyInt j) = (i = j)"
| "py_eq (PyInt i) (PyFloat (Fin b)) = (of_int i = val b)"
| "py_eq (PyFloat (Fin a)) (PyInt j) = (val a = of_int j)"
| "py_eq (PyFloat (Fin a)) (PyFloat (Fin b)) = (a = b)"
| "py_eq (PyFloat PInf) (PyFloat PInf) = True"
| "py_eq (PyFloat NInf) (PyFloat NInf) = True"
| "py_eq a b = False"

definition py_ne :: "number \<Rightarrow> number \<Rightarrow> bool" where
  "py_ne a b = (\<not> py_eq a b)"

text \<open>\<^verbatim>\<open>math.isfinite\<close>: neither an infinity nor NaN.\<close>

fun isfinite :: "number \<Rightarrow> bool" where
  "isfinite (PyInt i) = True"
| "isfinite (PyFloat (Fin a)) = True"
| "isfinite (PyFloat PInf) = False"
| "isfinite (PyFloat NInf) = False"
| "isfinite (PyFloat NaN) = False"

text \<open>\<^verbatim>\<open>np.arange(n)\<close>: the integers \<open>0, \<dots>, n - 1\<close>, none when \<open>n \<le> 0\<close>.\<close>

definition arange :: "int \<Rightarrow> int list" where
  "arange n = [0..n - 1]"


section \<open>Axis\<close>

text \<open>
  The concrete classes of \<^verbatim>\<open>Axis\<close> are \<^verbatim>\<open>LinearAxis\<close> and \<^verbatim>\<open>LogAxis\<close>; the base class
  defines no mapper and the module creates no instance of it. An instance has no
  field, so it is its identity and its class (\<^verbatim>\<open>type(self)\<close>).
\<close>

datatype axis_class = LinearAxis | LogAxis

record axis =
  ident :: nat
  cls :: axis_class

text \<open>\<^verbatim>\<open>Axis.__eq__\<close>, \<^verbatim>\<open>Axis.__ne__\<close> and \<^verbatim>\<open>Axis.__hash__\<close>.\<close>

definition axis_eq :: "axis \<Rightarrow> axis \<Rightarrow> bool" where
  "axis_eq self other = (cls self = cls other)"

definition axis_ne :: "axis \<Rightarrow> axis \<Rightarrow> bool" where
  "axis_ne self other = (\<not> axis_eq self other)"

text \<open>
  \<^verbatim>\<open>hash(type(self))\<close>: the hash of a class object is Python's own; it is a parameter
  \<open>type_hash\<close> of the model.
\<close>

definition axis_hash :: "(axis_class \<Rightarrow> int) \<Rightarrow> axis \<Rightarrow> int" where
  "axis_hash type_hash self = type_hash (cls self)"

text \<open>
  The static methods \<^verbatim>\<open>mapper\<close> and \<^verbatim>\<open>inverse_mapper\<close> of the two classes. The decorator
  \<^verbatim>\<open>ngjit\<close> (numba's nopython compilation, from \<^verbatim>\<open>datashader.utils\<close>) leaves the value of
  a function unchanged; called on a scalar, a compiled function returns a plain Python
  number. The linear mapper returns its argument, an integer or a float or an array
  element, as it is. The log mapper converts an integer to a float.
\<close>

definition LinearAxis_mapper :: "'a \<Rightarrow> 'a" where
  "LinearAxis_mapper x = x"

definition LinearAxis_inverse_mapper :: "'a \<Rightarrow> 'a" where
  "LinearAxis_inverse_mapper = LinearAxis_mapper"

definition LogAxis_mapper :: "number \<Rightarrow> number" where
  "LogAxis_mapper x = PyFloat (np_log10 (to_float x))"

definition LogAxis_inverse_mapper :: "pyfloat \<Rightarrow> pyfloat" where
  "LogAxis_inverse_mapper x = pow10 x"

text \<open>
  \<^verbatim>\<open>self.mapper\<close>, applied to a bound, and \<^verbatim>\<open>self.inverse_mapper\<close>, applied to the elements
  of a float array: looked up in the class of \<open>self\<close>.
\<close>

definition mapper :: "axis \<Rightarrow> number \<Rightarrow> number" where
  "mapper self =
     (case cls self of LinearAxis \<Rightarrow> LinearAxis_mapper | LogAxis \<Rightarrow> LogAxis_mapper)"

definition inverse_mapper :: "axis \<Rightarrow> pyfloat \<Rightarrow> pyfloat" where
  "inverse_mapper self =
     (case cls self of
        LinearAxis \<Rightarrow> LinearAxis_inverse_mapper
      | LogAxis \<Rightarrow> LogAxis_inverse_mapper)"

text \<open>
  \<^verbatim>\<open>Axis.scale_and_translation(self, range, n)\<close>; the pair \<^verbatim>\<open>range\<close> is \<open>rng\<close> here. The
  two mapped bounds are Python scalars, so the division is Python's and raises on a
  zero divisor. The quotient \<open>s\<close> is a float, and so is the product \<open>t\<close>.
\<close>

definition scale_and_translation ::
  "axis \<Rightarrow> number \<times> number \<Rightarrow> int \<Rightarrow> exn + (pyfloat \<times> pyfloat)" where
  "scale_and_translation self rng n =
     (let start = mapper self (fst rng);
          end = mapper self (snd rng)
      in case num_truediv (PyInt (n - 1)) (num_sub end start) of
           Inl e \<Rightarrow> Inl e
         | Inr s \<Rightarrow> (let t = float_mul (to_float (num_neg start)) s in Inr (s, t)))"

text \<open>
  \<^verbatim>\<open>Axis.compute_index(self, n, st)\<close>, for floats \<open>s\<close> and \<open>t\<close>: \<^verbatim>\<open>px\<close> is a numpy array of
  integers, so the subtraction and the division are numpy's, element by element on
  floats, and the inverse mapper is applied to every element.
\<close>

definition compute_index :: "axis \<Rightarrow> int \<Rightarrow> pyfloat \<times> pyfloat \<Rightarrow> pyfloat list" where
  "compute_index self n st =
     (let px = arange n;
          s = fst st;
          t = snd st
      in map (\<lambda>p. inverse_mapper self (np_true_divide (float_sub (fl (of_int p)) t) s)) px)"






section \<open>Canvas\<close>

text \<open>
  The module-level dictionary \<^verbatim>\<open>_axis_lookup\<close>: one instance of each class, created when
  the module is loaded.
\<close>

definition linear_axis :: axis where
  "linear_axis = \<lparr>ident = 0, cls = LinearAxis\<rparr>"

definition log_axis :: axis where
  "log_axis = \<lparr>ident = 1, cls = LogAxis\<rparr>"

definition axis_lookup :: "string \<rightharpoonup> axis" where
  "axis_lookup = [''linear'' \<mapsto> linear_axis, ''log'' \<mapsto> log_axis]"

text \<open>\<^verbatim>\<open>_axis_lookup[name]\<close>: a missing key raises \<^verbatim>\<open>KeyError\<close> with the key.\<close>

definition axis_lookup_getitem :: "string \<Rightarrow> exn + axis" where
  "axis_lookup_getitem name =
     (case axis_lookup name of None \<Rightarrow> Inl (KeyError name) | Some a \<Rightarrow> Inr a)"

record canvas =
  plot_width :: int
  plot_height :: int
  x_range :: "number list option"
  y_range :: "number list option"
  x_axis :: axis
  y_axis :: axis

text \<open>
  \<^verbatim>\<open>tuple(r) if r else r\<close>, for a range \<open>r\<close> that is \<^verbatim>\<open>None\<close> or a sequence of numbers: \<^verbatim>\<open>None\<close>
  and the empty sequence are false and are kept as they are; any other sequence becomes
  the tuple of its elements (tuples and lists are both lists here).
\<close>

definition tuple_if_truthy :: "number list option \<Rightarrow> number list option" where
  "tuple_if_truthy r = (case r of None \<Rightarrow> r | Some xs \<Rightarrow> if xs = [] then r else Some xs)"

text \<open>
  \<^verbatim>\<open>Canvas.__init__\<close>. The x axis is looked up before the y axis, and an exception
  leaves no canvas.
\<close>

definition Canvas_init ::
  "int \<Rightarrow> int \<Rightarrow> number list option \<Rightarrow> number list option \<Rightarrow> string \<Rightarrow> string
     \<Rightarrow> exn + canvas" where
  "Canvas_init pw ph xr yr x_axis_type y_axis_type =
     (case axis_lookup_getitem x_axis_type of
        Inl e \<Rightarrow> Inl e
      | Inr xa \<Rightarrow>
          (case axis_lookup_getitem y_axis_type of
             Inl e \<Rightarrow> Inl e
           | Inr ya \<Rightarrow>
               Inr \<lparr>plot_width = pw, plot_height = ph,
                    x_range = tuple_if_truthy xr, y_range = tuple_if_truthy yr,
                    x_axis = xa, y_axis = ya\<rparr>))"


section \<open>The rendering orchestrator\<close>

text \<open>
  \<^verbatim>\<open>bypixel\<close> works through collaborators that are not part of the module:
  \<^verbatim>\<open>discover\<close> (odo), \<^verbatim>\<open>istabular\<close> and the attribute \<^verbatim>\<open>measure\<close> of a datashape (here
  \<open>dshape_measure\<close>), the dispatcher \<^verbatim>\<open>pipeline\<close>, and the \<^verbatim>\<open>validate\<close> methods of the glyph and
  of the summary.
  They are parameters of the model. A call that may raise returns an exception or a
  value; a glyph or a summary is the \<^verbatim>\<open>validate\<close> method it exposes.
\<close>

type_synonym 'sch validator = "'sch \<Rightarrow> exn + unit"

record ('src, 'ds, 'sch, 'res) externals =
  discover :: "'src \<Rightarrow> exn + 'ds"
  istabular :: "'ds \<Rightarrow> bool"
  dshape_measure :: "'ds \<Rightarrow> 'sch"
  pipeline :: "'src \<Rightarrow> 'sch \<Rightarrow> canvas \<Rightarrow> 'sch validator \<Rightarrow> 'sch validator \<Rightarrow> exn + 'res"

text \<open>The calls \<^verbatim>\<open>bypixel\<close> makes to its collaborators, recorded in the order made.\<close>

datatype call = Discover | IsTabular | GlyphValidate | SummaryValidate | Pipeline

text \<open>
  \<^verbatim>\<open>bypixel(source, canvas, glyph, summary)\<close>: the result, and the record of calls
  \<open>calls\<close> extended by every call made.
\<close>

definition bypixel ::
  "('src, 'ds, 'sch, 'res) externals \<Rightarrow> 'src \<Rightarrow> canvas \<Rightarrow> 'sch validator \<Rightarrow> 'sch validator
     \<Rightarrow> call list \<Rightarrow> (exn + 'res) \<times> call list" where
  "bypixel ext source canvas glyph summary calls =
     (let c1 = calls @ [Discover] in
      case discover ext source of
        Inl e \<Rightarrow> (Inl e, c1)
      | Inr dshape \<Rightarrow>
          (let c2 = c1 @ [IsTabular] in
           if \<not> istabular ext dshape
           then (Inl (ValueError ''source must be tabular''), c2)
           else
             (let schema = dshape_measure ext dshape;
                  c3 = c2 @ [GlyphValidate] in
              case glyph schema of
                Inl e \<Rightarrow> (Inl e, c3)
              | Inr u \<Rightarrow>
                  (let c4 = c3 @ [SummaryValidate] in
                   case summary schema of
                     Inl e \<Rightarrow> (Inl e, c4)
                   | Inr v \<Rightarrow>
                       (pipeline ext source schema canvas glyph summary,
                        c4 @ [Pipeline])))))"


section \<open>A setting for the examples\<close>

text \<open>
  Collaborators to run \<^verbatim>\<open>bypixel\<close> on: a source is its own shape, a table with named
  columns or a scalar; the schema of a table is the list of its column names; the
  pipeline returns the number of columns; a glyph or a summary requires one column.
\<close>

datatype example_shape = Table "string list" | Scalar

definition example_ext :: "(example_shape, example_shape, string list, nat) externals" where
  "example_ext =
     \<lparr>discover = (\<lambda>source. Inr source),
      istabular = (\<lambda>dshape. case dshape of Table cols \<Rightarrow> True | Scalar \<Rightarrow> False),
      dshape_measure = (\<lambda>dshape. case dshape of Table cols \<Rightarrow> cols | Scalar \<Rightarrow> []),
      pipeline = (\<lambda>source schema canvas glyph summary. Inr (length schema))\<rparr>"

definition requires_column :: "string \<Rightarrow> string list validator" where
  "requires_column c schema = (if c \<in> set schema then Inr () else Inl (ValueError c))"

definition example_canvas :: canvas where
  "example_canvas =
     \<lparr>plot_width = 600, plot_height = 600, x_range = None, y_range = None,
      x_axis = linear_axis, y_axis = linear_axis\<rparr>"


section \<open>Facts about rounding\<close>

lemma two_to_pos: "0 < two_to e"
  by (simp add: two_to_def)

lemma two_to_nonzero: "two_to e \<noteq> 0"
  using two_to_pos[of e] by simp

lemma two_to_add: "two_to (a + b) = two_to a * two_to b"
  by (simp add: two_to_def powr_add)

lemma two_to_le_iff: "two_to a \<le> two_to b \<longleftrightarrow> a \<le> b"
  by (simp add: two_to_def)

lemma two_to_less_iff: "two_to a < two_to b \<longleftrightarrow> a < b"
  by (simp add: two_to_def)

lemma two_to_0: "two_to 0 = 1"
  by (simp add: two_to_def)

lemma two_to_1: "two_to 1 = 2"
  by (simp add: two_to_def)

lemma two_to_nat: "two_to (int k) = 2 ^ k"
  by (simp add: two_to_def powr_realpow)

lemma two_to_52: "two_to 52 = of_int (2 ^ 52)"
  using two_to_nat[of 52] by simp

lemma two_to_53: "two_to 53 = of_int (2 ^ 53)"
  using two_to_nat[of 53] by simp

lemma rne_of_int: "rne (of_int N) = N"
  by (simp add: rne_def)

lemma rne_0: "rne 0 = 0"
  using rne_of_int[of 0] by simp

lemma rne_error: "\<bar>of_int (rne q) - q\<bar> \<le> 1 / 2"
  unfolding rne_def Let_def by (auto simp: abs_le_iff)

lemma rne_abs_le:
  assumes "\<bar>q\<bar> < of_int N"
  shows "\<bar>rne q\<bar> \<le> N"
proof -
  have "\<bar>of_int (rne q)\<bar> < (of_int N + 1 :: real)"
    using rne_error[of q] assms by linarith
  then have "\<bar>rne q\<bar> < N + 1" by (metis of_int_abs of_int_less_iff of_int_add of_int_1)
  then show ?thesis by simp
qed

lemma rne_abs_ge:
  assumes "of_int N \<le> \<bar>q\<bar>"
  shows "N \<le> \<bar>rne q\<bar>"
proof -
  have "(of_int N - 1 :: real) < \<bar>of_int (rne q)\<bar>"
    using rne_error[of q] assms by linarith
  then have "N - 1 < \<bar>rne q\<bar>" by (metis of_int_abs of_int_less_iff of_int_diff of_int_1)
  then show ?thesis by simp
qed

lemma ulp_exp_ge: "- 1074 \<le> ulp_exp x"
  by (simp add: ulp_exp_def)

lemma round64_0: "round64 0 = 0"
  by (simp only: round64_def div_0 rne_0 of_int_0 mult_zero_left)

lemma floor_log2_bounds:
  assumes "x \<noteq> 0"
  shows "two_to \<lfloor>log 2 \<bar>x\<bar>\<rfloor> \<le> \<bar>x\<bar>"
    and "\<bar>x\<bar> < two_to (\<lfloor>log 2 \<bar>x\<bar>\<rfloor> + 1)"
proof -
  have pos: "0 < \<bar>x\<bar>" using assms by simp
  have "2 powr real_of_int \<lfloor>log 2 \<bar>x\<bar>\<rfloor> \<le> \<bar>x\<bar>
      \<and> \<bar>x\<bar> < 2 powr real_of_int (\<lfloor>log 2 \<bar>x\<bar>\<rfloor> + 1)"
    using floor_log_eq_powr_iff[OF pos, of 2 "\<lfloor>log 2 \<bar>x\<bar>\<rfloor>"] by simp
  then show "two_to \<lfloor>log 2 \<bar>x\<bar>\<rfloor> \<le> \<bar>x\<bar>"
    and "\<bar>x\<bar> < two_to (\<lfloor>log 2 \<bar>x\<bar>\<rfloor> + 1)"
    unfolding two_to_def by blast+
qed

lemma div_two_to_less:
  assumes "\<bar>x\<bar> < two_to (u + k)"
  shows "\<bar>x / two_to u\<bar> < two_to k"
proof -
  have "\<bar>x\<bar> < two_to k * two_to u" using assms by (simp only: two_to_add mult.commute)
  then have "\<bar>x\<bar> / two_to u < two_to k"
    using two_to_pos[of u] by (simp only: pos_divide_less_eq)
  then show ?thesis using two_to_pos[of u] by (simp only: abs_divide abs_of_pos)
qed

lemma div_two_to_ge:
  assumes "two_to (u + k) \<le> \<bar>x\<bar>"
  shows "two_to k \<le> \<bar>x / two_to u\<bar>"
proof -
  have "two_to k * two_to u \<le> \<bar>x\<bar>" using assms by (simp only: two_to_add mult.commute)
  then have "two_to k \<le> \<bar>x\<bar> / two_to u"
    using two_to_pos[of u] by (simp only: pos_le_divide_eq)
  then show ?thesis using two_to_pos[of u] by (simp only: abs_divide abs_of_pos)
qed

text \<open>The scaled value has fewer than 54 bits.\<close>

lemma scaled_lt:
  assumes "x \<noteq> 0"
  shows "\<bar>x / two_to (ulp_exp x)\<bar> < two_to 53"
proof -
  let ?k = "\<lfloor>log 2 \<bar>x\<bar>\<rfloor>"
  have "?k + 1 \<le> ulp_exp x + 53" by (simp add: ulp_exp_def)
  then have "two_to (?k + 1) \<le> two_to (ulp_exp x + 53)" by (simp only: two_to_le_iff)
  with floor_log2_bounds(2)[OF assms] have "\<bar>x\<bar> < two_to (ulp_exp x + 53)" by linarith
  then show ?thesis by (rule div_two_to_less)
qed

text \<open>In the normal range the scaled value has 53 bits.\<close>

lemma scaled_ge:
  assumes "x \<noteq> 0" "- 1074 < ulp_exp x"
  shows "two_to 52 \<le> \<bar>x / two_to (ulp_exp x)\<bar>"
proof -
  let ?k = "\<lfloor>log 2 \<bar>x\<bar>\<rfloor>"
  have "ulp_exp x + 52 = ?k" using assms(2) by (simp add: ulp_exp_def max_def split: if_splits)
  with floor_log2_bounds(1)[OF assms(1)] have "two_to (ulp_exp x + 52) \<le> \<bar>x\<bar>" by simp
  then show ?thesis by (rule div_two_to_ge)
qed

text \<open>Below the normal range the last place is \<open>two_to (- 1074)\<close>.\<close>

lemma scaled_ge_subnormal:
  assumes "two_to (- 1074) \<le> \<bar>x\<bar>"
  shows "1 \<le> \<bar>x / two_to (ulp_exp x)\<bar>"
proof (cases "- 1074 < ulp_exp x")
  case True
  have "x \<noteq> 0" using assms two_to_pos[of "- 1074"] by auto
  have "two_to 0 \<le> two_to 52" by (simp add: two_to_le_iff)
  with scaled_ge[OF \<open>x \<noteq> 0\<close> True] show ?thesis by (simp add: two_to_0)
next
  case False
  then have u: "ulp_exp x = - 1074" using ulp_exp_ge[of x] by linarith
  have "two_to (- 1074 + 0) \<le> \<bar>x\<bar>" using assms by simp
  then have "two_to 0 \<le> \<bar>x / two_to (- 1074)\<bar>" by (rule div_two_to_ge)
  then show ?thesis by (simp only: u two_to_0)
qed

text \<open>Rounding keeps a number of at most 53 bits, however large.\<close>

lemma round64_exact:
  assumes m: "\<bar>m\<bar> < 2 ^ 53" and e: "- 1074 \<le> e"
  shows "round64 (of_int m * two_to e) = of_int m * two_to e"
proof (cases "m = 0")
  case True
  then show ?thesis by (simp add: round64_0)
next
  case False
  define x :: real where "x = of_int m * two_to e"
  define u where "u = ulp_exp x"
  let ?k = "\<lfloor>log 2 \<bar>x\<bar>\<rfloor>"
  have x0: "x \<noteq> 0" using False two_to_nonzero[of e] by (simp add: x_def)
  have "real_of_int \<bar>m\<bar> < of_int (2 ^ 53)" using m by (simp only: of_int_less_iff)
  then have "real_of_int \<bar>m\<bar> < two_to 53" by (simp only: two_to_53)
  then have "\<bar>x\<bar> < two_to 53 * two_to e"
    using two_to_pos[of e] by (simp add: x_def abs_mult)
  then have "\<bar>x\<bar> < two_to (53 + e)" by (simp only: two_to_add)
  with floor_log2_bounds(1)[OF x0] have "two_to ?k < two_to (53 + e)" by linarith
  then have "?k < 53 + e" by (simp only: two_to_less_iff)
  then have ue: "u \<le> e" using e by (simp add: u_def ulp_exp_def)
  define j where "j = nat (e - u)"
  have ej: "e = u + int j" using ue unfolding j_def by linarith
  have "two_to e = two_to u * two_to (int j)" unfolding ej by (rule two_to_add)
  then have pe: "two_to e = 2 ^ j * two_to u" by (simp only: two_to_nat mult.commute)
  have "x = (of_int m * 2 ^ j) * two_to u" unfolding x_def by (simp only: pe mult.assoc)
  then have x: "x = of_int (m * 2 ^ j) * two_to u" by simp
  have q: "x / two_to u = of_int (m * 2 ^ j)"
    by (subst x) (simp only: nonzero_mult_div_cancel_right[OF two_to_nonzero])
  have "round64 x = of_int (rne (x / two_to u)) * two_to u"
    by (simp only: round64_def u_def)
  also have "\<dots> = of_int (m * 2 ^ j) * two_to u"
    by (simp only: q rne_of_int)
  also have "\<dots> = x" by (rule x[symmetric])
  finally show ?thesis by (simp only: x_def)
qed

lemma round64_is_float64: "is_float64 x \<Longrightarrow> round64 x = x"
  unfolding is_float64_def using round64_exact by blast

text \<open>Rounding gives a float unless it overflows.\<close>

lemma is_float64_round64:
  assumes "\<bar>round64 x\<bar> < two_to 1024"
  shows "is_float64 (round64 x)"
proof (cases "x = 0")
  case True
  have "round64 0 = of_int 0 * two_to 0" by (simp add: round64_0)
  then show ?thesis unfolding True is_float64_def by (intro exI[of _ 0]) simp
next
  case False
  let ?u = "ulp_exp x"
  let ?M = "rne (x / two_to ?u)"
  have y: "round64 x = of_int ?M * two_to ?u" by (simp only: round64_def)
  have "\<bar>x / two_to ?u\<bar> < of_int (2 ^ 53)" using scaled_lt[OF False] by (simp only: two_to_53)
  then have Mle: "\<bar>?M\<bar> \<le> 2 ^ 53" by (rule rne_abs_le)
  have ulo: "- 1074 \<le> ?u" by (rule ulp_exp_ge)
  show ?thesis
  proof (cases "\<bar>?M\<bar> = 2 ^ 53")
    case True
    then have "real_of_int \<bar>?M\<bar> = two_to 53" by (simp only: two_to_53)
    then have "\<bar>round64 x\<bar> = two_to 53 * two_to ?u"
      using two_to_pos[of ?u] by (simp add: y abs_mult)
    then have "\<bar>round64 x\<bar> = two_to (53 + ?u)" by (simp only: two_to_add)
    with assms have "two_to (53 + ?u) < two_to 1024" by simp
    then have "53 + ?u < 1024" by (simp only: two_to_less_iff)
    then have uhi: "?u + 1 \<le> 971" by linarith
    have p: "two_to (?u + 1) = two_to ?u * 2" by (simp only: two_to_add two_to_1)
    have sgn: "?M = 2 ^ 53 \<or> ?M = - (2 ^ 53)" using True by linarith
    then show ?thesis
    proof
      assume "?M = 2 ^ 53"
      then have "round64 x = of_int (2 ^ 52) * two_to (?u + 1)" by (simp add: y p)
      moreover have "\<bar>2 ^ 52 :: int\<bar> < 2 ^ 53" by simp
      ultimately show ?thesis unfolding is_float64_def using uhi ulo
        by (meson add_increasing2 zero_le_one)
    next
      assume "?M = - (2 ^ 53)"
      then have "round64 x = of_int (- (2 ^ 52)) * two_to (?u + 1)" by (simp add: y p)
      moreover have "\<bar>- (2 ^ 52) :: int\<bar> < 2 ^ 53" by simp
      ultimately show ?thesis unfolding is_float64_def using uhi ulo
        by (meson add_increasing2 zero_le_one)
    qed
  next
    case lt: False
    with Mle have Mlt: "\<bar>?M\<bar> < 2 ^ 53" by linarith
    have uhi: "?u \<le> 971"
    proof (rule ccontr)
      assume "\<not> ?u \<le> 971"
      then have big: "972 \<le> ?u" by linarith
      then have "- 1074 < ?u" by linarith
      from scaled_ge[OF False this] have "of_int (2 ^ 52) \<le> \<bar>x / two_to ?u\<bar>"
        by (simp only: two_to_52)
      then have "2 ^ 52 \<le> \<bar>?M\<bar>" by (rule rne_abs_ge)
      then have "of_int (2 ^ 52) \<le> real_of_int \<bar>?M\<bar>" by (simp only: of_int_le_iff)
      then have a: "two_to 52 \<le> \<bar>real_of_int ?M\<bar>" by (simp only: two_to_52 of_int_abs)
      have b: "two_to 972 \<le> two_to ?u" using big by (simp only: two_to_le_iff)
      have "two_to 52 * two_to 972 \<le> \<bar>real_of_int ?M\<bar> * two_to ?u"
        using a b two_to_pos[of 52] two_to_pos[of 972] by (intro mult_mono) simp_all
      moreover have "two_to 52 * two_to 972 = two_to 1024"
        using two_to_add[of 52 972] by simp
      ultimately have "two_to 1024 \<le> \<bar>round64 x\<bar>"
        using two_to_pos[of ?u] by (simp add: y abs_mult)
      with assms show False by simp
    qed
    show ?thesis unfolding is_float64_def using y Mlt ulo uhi by blast
  qed
qed

text \<open>Only numbers below the smallest positive float can round to zero.\<close>

lemma round64_nonzero:
  assumes "two_to (- 1074) \<le> \<bar>x\<bar>"
  shows "round64 x \<noteq> 0"
proof -
  have "of_int 1 \<le> \<bar>x / two_to (ulp_exp x)\<bar>"
    using scaled_ge_subnormal[OF assms] by simp
  then have "1 \<le> \<bar>rne (x / two_to (ulp_exp x))\<bar>" by (rule rne_abs_ge)
  then have "rne (x / two_to (ulp_exp x)) \<noteq> 0" by linarith
  then show ?thesis using two_to_nonzero by (simp add: round64_def)
qed


section \<open>Facts about floats\<close>

lemma is_float64_0: "is_float64 0"
proof -
  have "(0::real) = of_int 0 * two_to 0" by simp
  then show ?thesis unfolding is_float64_def by (intro exI[of _ 0]) simp
qed

lemma is_float64_val: "is_float64 (val a)"
  using val[of a] by simp

lemma val_float64_of: "is_float64 x \<Longrightarrow> val (float64_of x) = x"
  by (simp add: float64_of_inverse)

lemma val_0: "val 0 = 0"
  by (rule zero_float64.rep_eq)

lemma val_eq_0_iff: "val a = 0 \<longleftrightarrow> a = 0"
  using val_inject[of a 0] by (simp add: val_0)

lemma float64_of_0: "float64_of 0 = 0"
  by (simp add: zero_float64_def)

lemma is_float64_bound:
  assumes "is_float64 x"
  shows "\<bar>x\<bar> < two_to 1024"
proof -
  from assms obtain m e :: int
    where m: "\<bar>m\<bar> < 2 ^ 53" and e: "e \<le> 971" and x: "x = of_int m * two_to e"
    unfolding is_float64_def by blast
  have "real_of_int \<bar>m\<bar> < of_int (2 ^ 53)" using m by (simp only: of_int_less_iff)
  then have a: "\<bar>real_of_int m\<bar> < two_to 53" by (simp only: two_to_53 of_int_abs)
  have b: "two_to e \<le> two_to 971" using e by (simp only: two_to_le_iff)
  have "\<bar>real_of_int m\<bar> * two_to e < two_to 53 * two_to 971"
    using a b two_to_pos[of e] by (intro mult_less_le_imp_less) simp_all
  moreover have "two_to 53 * two_to 971 = two_to 1024" using two_to_add[of 53 971] by simp
  ultimately show ?thesis using two_to_pos[of e] by (simp add: x abs_mult)
qed

text \<open>A float is the result of rounding itself.\<close>

lemma fl_exact:
  assumes "is_float64 x"
  shows "fl x = Fin (float64_of x)"
proof -
  have "\<bar>x\<bar> < two_to 1024" using assms by (rule is_float64_bound)
  then have "\<not> two_to 1024 \<le> x" "\<not> x \<le> - two_to 1024" by linarith+
  then show ?thesis by (simp add: fl_def round64_is_float64[OF assms])
qed

lemma fl_val: "fl (val a) = Fin a"
  by (simp add: fl_exact[OF is_float64_val] val_inverse)

lemma fl_0: "fl 0 = Fin 0"
  by (simp add: fl_exact[OF is_float64_0] float64_of_0)

text \<open>The result of rounding is an infinity or a float.\<close>

lemma fl_cases:
  obtains "fl x = PInf" "two_to 1024 \<le> round64 x"
  | "fl x = NInf" "round64 x \<le> - two_to 1024"
  | "fl x = Fin (float64_of (round64 x))" "is_float64 (round64 x)"
proof (cases "two_to 1024 \<le> round64 x")
  case True
  then show ?thesis using that(1) by (simp add: fl_def)
next
  case hi: False
  show ?thesis
  proof (cases "round64 x \<le> - two_to 1024")
    case True
    then show ?thesis using that(2) hi by (simp add: fl_def)
  next
    case False
    with hi have "\<bar>round64 x\<bar> < two_to 1024" by linarith
    then have "is_float64 (round64 x)" by (rule is_float64_round64)
    then show ?thesis using that(3) hi False by (simp add: fl_def)
  qed
qed

lemma fl_nonzero:
  assumes "two_to (- 1074) \<le> \<bar>x\<bar>"
  shows "fl x \<noteq> Fin 0"
proof (cases x rule: fl_cases)
  case 3
  have "round64 x \<noteq> 0" using assms by (rule round64_nonzero)
  then have "val (float64_of (round64 x)) \<noteq> 0" using 3(2) by (simp add: val_float64_of)
  then have "float64_of (round64 x) \<noteq> 0" by (simp add: val_eq_0_iff)
  with 3(1) show ?thesis by simp
qed simp_all

text \<open>Every float is a multiple of the smallest positive float.\<close>

lemma float64_multiple:
  assumes "is_float64 x"
  shows "\<exists>A :: int. x = of_int A * two_to (- 1074)"
proof -
  from assms obtain m e :: int where e: "- 1074 \<le> e" and x: "x = of_int m * two_to e"
    unfolding is_float64_def by blast
  define j where "j = nat (e + 1074)"
  have "e = - 1074 + int j" using e unfolding j_def by linarith
  then have "two_to e = two_to (- 1074) * two_to (int j)" by (simp only: two_to_add)
  then have "x = of_int (m * 2 ^ j) * two_to (- 1074)"
    by (simp add: x two_to_nat)
  then show ?thesis ..
qed

lemma float64_apart:
  assumes "is_float64 a" "is_float64 b" "a \<noteq> b"
  shows "two_to (- 1074) \<le> \<bar>a - b\<bar>"
proof -
  obtain A :: int where A: "a = of_int A * two_to (- 1074)"
    using float64_multiple[OF assms(1)] by blast
  obtain B :: int where B: "b = of_int B * two_to (- 1074)"
    using float64_multiple[OF assms(2)] by blast
  have "A \<noteq> B" using assms(3) A B by auto
  then have "1 \<le> \<bar>A - B\<bar>" by linarith
  then have "(1::real) \<le> \<bar>of_int (A - B)\<bar>" by (metis of_int_1_le_iff of_int_abs)
  then have "1 * two_to (- 1074) \<le> \<bar>of_int (A - B)\<bar> * two_to (- 1074)"
    using two_to_pos[of "- 1074"] by (intro mult_right_mono) simp_all
  moreover have "a - b = of_int (A - B) * two_to (- 1074)"
    by (simp add: A B left_diff_distrib)
  ultimately show ?thesis using two_to_pos[of "- 1074"] by (simp add: abs_mult)
qed

text \<open>The difference of two floats is zero only when they are the same float.\<close>

lemma float_sub_Fin_nonzero:
  assumes "a \<noteq> b"
  shows "float_sub (Fin a) (Fin b) \<noteq> Fin 0"
proof -
  have "val a \<noteq> val b" using assms by (simp add: val_inject)
  then have "two_to (- 1074) \<le> \<bar>val a - val b\<bar>"
    using float64_apart[OF is_float64_val is_float64_val] by blast
  then show ?thesis by (simp add: fl_nonzero)
qed

lemma float_sub_Fin_same: "float_sub (Fin a) (Fin a) = Fin 0"
  by (simp add: fl_0)

lemma float_mul_NaN_right: "float_mul x NaN = NaN"
  by (cases x) simp_all

lemma float_div_NaN_right: "float_div x NaN = NaN"
  by (cases x) simp_all

text \<open>Integers of at most 53 bits are floats.\<close>

lemma is_float64_of_int:
  assumes "\<bar>i\<bar> < 2 ^ 53"
  shows "is_float64 (of_int i)"
proof -
  have "real_of_int i = of_int i * two_to 0" by (simp add: two_to_0)
  then show ?thesis unfolding is_float64_def using assms
    by (intro exI[of _ i] exI[of _ 0]) simp
qed

lemma fl_of_int:
  assumes "\<bar>i\<bar> < 2 ^ 53"
  shows "fl (of_int i) = Fin (float64_of (of_int i))"
    and "val (float64_of (of_int i)) = of_int i"
  using is_float64_of_int[OF assms] by (simp_all add: fl_exact val_float64_of)

lemma fl_eq_Fin_0_iff:
  assumes "is_float64 x"
  shows "fl x = Fin 0 \<longleftrightarrow> x = 0"
proof -
  have "fl x = Fin 0 \<longleftrightarrow> float64_of x = 0" by (simp add: fl_exact[OF assms])
  also have "\<dots> \<longleftrightarrow> val (float64_of x) = 0" by (simp add: val_eq_0_iff)
  also have "\<dots> \<longleftrightarrow> x = 0" by (simp add: val_float64_of[OF assms])
  finally show ?thesis .
qed

lemma py_truediv_nonzero: "b \<noteq> Fin 0 \<Longrightarrow> py_truediv a b = Inr (float_div a b)"
  by (simp add: py_truediv_def)


lemma is_float64_two_to_53: "is_float64 (2 ^ 53)"
proof -
  have "(2::real) ^ 53 = of_int (2 ^ 52) * two_to 1" by (simp add: two_to_1)
  then show ?thesis unfolding is_float64_def
    by (intro exI[of _ "2 ^ 52"] exI[of _ 1]) simp
qed

lemma rne_half_even: "even N \<Longrightarrow> rne (of_int N + 1 / 2) = N"
proof -
  assume ev: "even N"
  have f: "\<lfloor>real_of_int N + 1 / 2\<rfloor> = N" by (rule floor_unique) simp_all
  show ?thesis unfolding rne_def Let_def f using ev by simp
qed

lemma round64_2_53_1: "round64 (2 ^ 53 + 1) = 2 ^ 53"
proof -
  define x :: real where "x = 2 ^ 53 + 1"
  have "\<lfloor>log 2 \<bar>x\<bar>\<rfloor> = 53"
    unfolding x_def by (subst floor_log_eq_powr_iff) (simp_all add: powr_numeral)
  then have u: "ulp_exp x = 1" by (simp add: ulp_exp_def)
  have q: "x / two_to 1 = of_int (2 ^ 52) + 1 / 2" by (simp add: x_def two_to_1)
  have "round64 x = of_int (rne (of_int (2 ^ 52) + 1 / 2)) * two_to 1"
    by (simp only: round64_def u q)
  also have "\<dots> = of_int (2 ^ 52) * two_to 1" by (subst rne_half_even) simp_all
  also have "\<dots> = 2 ^ 53" by (simp add: two_to_1)
  finally show ?thesis unfolding x_def .
qed

lemma fl_2_53_1: "fl (2 ^ 53 + 1) = Fin (float64_of (2 ^ 53))"
proof -
  have "\<bar>2 ^ 53 :: real\<bar> < two_to 1024" using is_float64_bound[OF is_float64_two_to_53] .
  then have "\<not> two_to 1024 \<le> (2 ^ 53 :: real)" "\<not> (2 ^ 53 :: real) \<le> - two_to 1024"
    by linarith+
  then show ?thesis unfolding fl_def Let_def round64_2_53_1 by (simp only: if_False)
qed



text \<open>Small integers as floats.\<close>

lemma fl_numeral:
  assumes "\<bar>numeral k :: int\<bar> < 2 ^ 53"
  shows "fl (numeral k) = Fin (float64_of (numeral k))"
    and "val (float64_of (numeral k)) = numeral k"
  using fl_of_int[OF assms] by simp_all

lemma fl_1: "fl 1 = Fin (float64_of 1)" and val_1: "val (float64_of 1) = 1"
  using fl_of_int[of 1] by simp_all

lemma float64_of_eq_0_iff: "is_float64 x \<Longrightarrow> float64_of x = 0 \<longleftrightarrow> x = 0"
  using val_float64_of[of x] val_eq_0_iff[of "float64_of x"] by simp

lemma float64_of_numeral_nonzero:
  "\<bar>numeral k :: int\<bar> < 2 ^ 53 \<Longrightarrow> float64_of (numeral k) \<noteq> 0"
  using is_float64_of_int[of "numeral k"] by (simp add: float64_of_eq_0_iff)

lemma float64_of_1_nonzero: "float64_of 1 \<noteq> 0"
  using is_float64_of_int[of 1] by (simp add: float64_of_eq_0_iff)

lemma log10_100: "log 10 100 = (2::real)"
proof -
  have "log 10 100 = log 10 (10 ^ 2)" by simp
  also have "\<dots> = 2" by (subst log_pow_cancel) simp_all
  finally show ?thesis .
qed


section \<open>Facts about the two axis methods\<close>

lemma length_compute_index: "length (compute_index ax n st) = nat n"
  by (simp add: compute_index_def arange_def)

lemma nth_compute_index:
  assumes "0 \<le> k" "k < n"
  shows "compute_index ax n (s, t) ! nat k =
           inverse_mapper ax (float_div (float_sub (fl (of_int k)) t) s)"
proof -
  have len: "nat k < length [0..n - 1]" using assms by simp
  have "[0..n - 1] ! nat k = k" using assms by (simp add: nth_upto)
  with len show ?thesis
    by (simp add: compute_index_def arange_def np_true_divide_def)
qed

lemma mapper_linear_axis: "mapper linear_axis x = x"
  by (simp add: mapper_def linear_axis_def LinearAxis_mapper_def)

lemma inverse_mapper_linear_axis: "inverse_mapper linear_axis x = x"
  by (simp add: inverse_mapper_def linear_axis_def LinearAxis_inverse_mapper_def
      LinearAxis_mapper_def)

lemma mapper_log_axis: "mapper log_axis x = PyFloat (np_log10 (to_float x))"
  by (simp add: mapper_def log_axis_def LogAxis_mapper_def)

lemma inverse_mapper_log_axis: "inverse_mapper log_axis x = pow10 x"
  by (simp add: inverse_mapper_def log_axis_def LogAxis_inverse_mapper_def)

text \<open>Equal finite numbers have the difference zero, as an integer or as a float.\<close>

lemma num_sub_py_eq_finite:
  assumes "py_eq e s" "isfinite s"
  shows "is_zero (num_sub e s)"
proof (cases e)
  case ei: (PyInt i)
  show ?thesis
  proof (cases s)
    case (PyInt j)
    with ei assms show ?thesis by simp
  next
    case (PyFloat y)
    with ei assms obtain b where y: "y = Fin b" and eq: "real_of_int i = val b"
      by (cases y) simp_all
    have "to_float e = Fin b" by (simp add: ei eq fl_val)
    then show ?thesis by (simp add: ei PyFloat y fl_0)
  qed
next
  case ef: (PyFloat x)
  show ?thesis
  proof (cases s)
    case (PyInt j)
    with ef assms obtain a where x: "x = Fin a" and eq: "val a = real_of_int j"
      by (cases x) simp_all
    have "to_float s = Fin a" by (simp add: PyInt eq[symmetric] fl_val)
    then show ?thesis by (simp add: ef PyInt x fl_0)
  next
    case (PyFloat y)
    with ef assms obtain a where "x = Fin a" "y = Fin a"
      by (cases x; cases y) simp_all
    then show ?thesis by (simp add: ef PyFloat fl_0)
  qed
qed

text \<open>Equal infinities have the difference NaN.\<close>

lemma num_sub_py_eq_infinite:
  assumes "py_eq e s" "\<not> isfinite s"
  shows "num_sub e s = PyFloat NaN"
proof -
  from assms(2) obtain y where s: "s = PyFloat y" and y: "y = PInf \<or> y = NInf \<or> y = NaN"
    by (cases s rule: isfinite.cases) simp_all
  from assms(1) s y have "e = s \<and> y \<noteq> NaN"
    by (cases e rule: isfinite.cases) auto
  with s y show ?thesis by auto
qed


text \<open>Differing numbers of one kind have a difference other than zero.\<close>

lemma num_sub_same_kind_nonzero:
  assumes "py_ne e s" "is_int e = is_int s"
  shows "\<not> is_zero (num_sub e s)"
proof (cases e)
  case ei: (PyInt i)
  with assms(2) obtain j where "s = PyInt j" by (cases s) simp_all
  with ei assms(1) show ?thesis by (simp add: py_ne_def)
next
  case ef: (PyFloat x)
  with assms(2) obtain y where sf: "s = PyFloat y" by (cases s) simp_all
  show ?thesis
  proof (cases "\<exists>a b. x = Fin a \<and> y = Fin b")
    case True
    then obtain a b where xy: "x = Fin a" "y = Fin b" by blast
    with assms(1) ef sf have "a \<noteq> b" by (simp add: py_ne_def)
    then show ?thesis using float_sub_Fin_nonzero[of a b] by (simp add: ef sf xy)
  next
    case False
    then have "float_sub x y \<noteq> Fin 0" by (cases x; cases y) simp_all
    then show ?thesis by (simp add: ef sf)
  qed
qed








section \<open>Equality and hashing of axes\<close>

text \<open>
  C8. Two Axis instances compare equal exactly when they are of the same class,
  whatever their identities; instances of different classes are never equal; and
  \<^verbatim>\<open>!=\<close> is the negation of \<^verbatim>\<open>==\<close>.
\<close>

theorem axis_eq_iff_same_class:
  "(axis_eq a b \<longleftrightarrow> cls a = cls b)
   \<and> (axis_eq \<lparr>ident = i, cls = c\<rparr> \<lparr>ident = j, cls = d\<rparr> \<longleftrightarrow> c = d)
   \<and> (axis_ne a b \<longleftrightarrow> \<not> axis_eq a b)
   \<and> (axis_ne a b \<longleftrightarrow> cls a \<noteq> cls b)"
  by (simp add: axis_eq_def axis_ne_def)

text \<open>
  C10. Axes that compare equal have the same hash: the hash of an instance is the hash
  of its class, whatever Python's hash of a class object is.
\<close>

theorem axis_hash_respects_eq:
  "axis_eq a b \<Longrightarrow> axis_hash type_hash a = axis_hash type_hash b"
  by (simp add: axis_eq_def axis_hash_def)

theorem axis_hash_respects_eq_witness:
  "axis_eq log_axis \<lparr>ident = 5, cls = LogAxis\<rparr>
   \<and> log_axis \<noteq> \<lparr>ident = 5, cls = LogAxis\<rparr>
   \<and> axis_hash (\<lambda>c. case c of LinearAxis \<Rightarrow> 11 | LogAxis \<Rightarrow> 22) log_axis
       = axis_hash (\<lambda>c. case c of LinearAxis \<Rightarrow> 11 | LogAxis \<Rightarrow> 22)
           \<lparr>ident = 5, cls = LogAxis\<rparr>"
proof -
  have e: "axis_eq log_axis \<lparr>ident = 5, cls = LogAxis\<rparr>"
    by (simp add: axis_eq_def log_axis_def)
  have d: "log_axis \<noteq> \<lparr>ident = 5, cls = LogAxis\<rparr>"
    by (simp add: log_axis_def)
  from e d axis_hash_respects_eq[OF e] show ?thesis by blast
qed


section \<open>Scale and translation\<close>

text \<open>
  C3, as the code has it. When the mapped bounds differ (Python's \<^verbatim>\<open>!=\<close>) and are two
  floats or two integers, or whenever their difference as Python computes it is not
  zero, \<^verbatim>\<open>scale_and_translation\<close> raises nothing and returns the pair \<open>(s, t)\<close> with
  \<open>s = (n - 1) / (mapper(end) - mapper(start))\<close> and \<open>t = - mapper(start) * s\<close>, each
  operation being Python's: a float result is the exact result rounded to the nearest
  float, or an infinity. When the difference is zero the division raises
  \<^verbatim>\<open>ZeroDivisionError\<close>.
\<close>

theorem scale_and_translation_formula:
  "(py_ne (mapper ax end) (mapper ax start)
      \<and> is_int (mapper ax end) = is_int (mapper ax start)
    \<or> \<not> is_zero (num_sub (mapper ax end) (mapper ax start)) \<longrightarrow>
      scale_and_translation ax (start, end) n =
        Inr (num_div (PyInt (n - 1)) (num_sub (mapper ax end) (mapper ax start)),
             float_mul (to_float (num_neg (mapper ax start)))
               (num_div (PyInt (n - 1)) (num_sub (mapper ax end) (mapper ax start)))))
   \<and> (is_zero (num_sub (mapper ax end) (mapper ax start)) \<longrightarrow>
      scale_and_translation ax (start, end) n = Inl ZeroDivisionError)"
  using num_sub_same_kind_nonzero[of "mapper ax end" "mapper ax start"]
  by (auto simp add: scale_and_translation_def num_truediv_def Let_def)

theorem scale_and_translation_formula_witness:
  "py_ne (mapper linear_axis (PyInt 9)) (mapper linear_axis (PyInt 0))
   \<and> scale_and_translation linear_axis (PyInt 0, PyInt 9) 10 = Inr (fl 1, fl 0)
   \<and> py_ne (mapper log_axis (PyInt 100)) (mapper log_axis (PyInt 1))
   \<and> scale_and_translation log_axis (PyInt 1, PyInt 100) 5 = Inr (fl 2, fl 0)"
proof -
  have ne: "py_ne (mapper linear_axis (PyInt 9)) (mapper linear_axis (PyInt 0))"
    by (simp add: mapper_linear_axis py_ne_def)
  have lin: "scale_and_translation linear_axis (PyInt 0, PyInt 9) 10 = Inr (fl 1, fl 0)"
    using scale_and_translation_formula[of linear_axis "PyInt 9" "PyInt 0" 10] ne
    by (simp add: mapper_linear_axis fl_0 val_0 fl_1 val_1)
  have m: "mapper log_axis (PyInt 1) = PyFloat (fl 0)"
    "mapper log_axis (PyInt 100) = PyFloat (fl 2)"
    by (simp_all add: mapper_log_axis fl_numeral fl_1 val_1 log10_100)
  have ne': "py_ne (mapper log_axis (PyInt 100)) (mapper log_axis (PyInt 1))"
    using is_float64_of_int[of 2]
    by (simp add: m py_ne_def fl_numeral fl_0 float64_of_eq_0_iff)
  have log: "scale_and_translation log_axis (PyInt 1, PyInt 100) 5 = Inr (fl 2, fl 0)"
    using scale_and_translation_formula[of log_axis "PyInt 100" "PyInt 1" 5] ne'
    by (simp add: m fl_numeral fl_0 val_0 float64_of_numeral_nonzero)
  from ne lin ne' log show ?thesis by blast
qed

text \<open>
  The claim C3 as the specification words it fails on the linear policy over the range
  \<open>(2 ^ 53 + 1, 2.0 ^ 53)\<close>, an integer and a float: the bounds differ, the integer converts
  to the float \<open>2 ^ 53\<close>, the difference is \<open>0.0\<close>, and the division raises.
\<close>

theorem scale_and_translation_int_float_raises:
  "py_ne (mapper linear_axis (PyFloat (fl (2 ^ 53)))) (mapper linear_axis (PyInt (2 ^ 53 + 1)))
   \<and> scale_and_translation linear_axis (PyInt (2 ^ 53 + 1), PyFloat (fl (2 ^ 53))) 10
       = Inl ZeroDivisionError"
proof -
  define big :: float64 where "big = float64_of (2 ^ 53)"
  have f: "fl (2 ^ 53) = Fin big"
    unfolding big_def by (rule fl_exact[OF is_float64_two_to_53])
  have v: "val big = 2 ^ 53"
    unfolding big_def by (rule val_float64_of[OF is_float64_two_to_53])
  have "real_of_int (2 ^ 53 + 1) = 2 ^ 53 + 1" by simp
  then have t: "to_float (PyInt (2 ^ 53 + 1)) = Fin big"
    unfolding big_def to_float.simps by (simp only: fl_2_53_1)
  have "val big \<noteq> real_of_int (2 ^ 53 + 1)" unfolding v by simp
  then have ne: "py_ne (mapper linear_axis (PyFloat (fl (2 ^ 53))))
      (mapper linear_axis (PyInt (2 ^ 53 + 1)))"
    unfolding mapper_linear_axis py_ne_def f by (simp only: py_eq.simps not_False_eq_True)
  have "num_sub (PyFloat (Fin big)) (PyInt (2 ^ 53 + 1)) = PyFloat (Fin 0)"
    unfolding num_sub.simps t by (simp add: fl_0)
  then have "scale_and_translation linear_axis (PyInt (2 ^ 53 + 1), PyFloat (fl (2 ^ 53))) 10
       = Inl ZeroDivisionError"
    unfolding scale_and_translation_def mapper_linear_axis f Let_def fst_conv snd_conv
    by (simp add: num_truediv_def)
  with ne show ?thesis by blast
qed


text \<open>
  C2, as the code has it. Over a zero-width range (the mapped bounds compare equal) the
  division raises \<^verbatim>\<open>ZeroDivisionError\<close> when the mapped bounds are finite. When they are
  the same infinity their difference is NaN, not zero: nothing is raised, and the
  scale and the translation returned are both NaN.
\<close>

theorem degenerate_range:
  "py_eq (mapper ax end) (mapper ax start) \<Longrightarrow>
   scale_and_translation ax (start, end) n =
     (if isfinite (mapper ax start) then Inl ZeroDivisionError else Inr (NaN, NaN))"
proof (cases "isfinite (mapper ax start)")
  case True
  assume "py_eq (mapper ax end) (mapper ax start)"
  then have "is_zero (num_sub (mapper ax end) (mapper ax start))"
    using True by (rule num_sub_py_eq_finite)
  with True show ?thesis
    by (simp add: scale_and_translation_def num_truediv_def)
next
  case False
  assume "py_eq (mapper ax end) (mapper ax start)"
  then have "num_sub (mapper ax end) (mapper ax start) = PyFloat NaN"
    using False by (rule num_sub_py_eq_infinite)
  with False show ?thesis
    by (simp add: scale_and_translation_def num_truediv_def float_div_NaN_right
        float_mul_NaN_right)
qed

theorem degenerate_range_witness:
  "py_eq (mapper linear_axis (PyInt 3)) (mapper linear_axis (PyInt 3))
   \<and> scale_and_translation linear_axis (PyInt 3, PyInt 3) 10 = Inl ZeroDivisionError
   \<and> py_eq (mapper linear_axis (PyFloat (fl 3))) (mapper linear_axis (PyInt 3))
   \<and> scale_and_translation linear_axis (PyInt 3, PyFloat (fl 3)) 10 = Inl ZeroDivisionError
   \<and> py_eq (mapper log_axis (PyInt 100)) (mapper log_axis (PyInt 100))
   \<and> scale_and_translation log_axis (PyInt 100, PyInt 100) 10 = Inl ZeroDivisionError"
proof -
  have e: "py_eq (mapper linear_axis (PyInt 3)) (mapper linear_axis (PyInt 3))"
    by (simp add: mapper_linear_axis)
  have e2: "py_eq (mapper linear_axis (PyFloat (fl 3))) (mapper linear_axis (PyInt 3))"
    by (simp add: mapper_linear_axis fl_numeral)
  have m: "mapper log_axis (PyInt 100) = PyFloat (fl 2)"
    by (simp add: mapper_log_axis fl_numeral log10_100)
  have e3: "py_eq (mapper log_axis (PyInt 100)) (mapper log_axis (PyInt 100))"
    by (simp add: m fl_numeral)
  have "scale_and_translation linear_axis (PyInt 3, PyInt 3) 10 = Inl ZeroDivisionError"
    using degenerate_range[OF e, of 10] by (simp add: mapper_linear_axis)
  moreover
  have "scale_and_translation linear_axis (PyInt 3, PyFloat (fl 3)) 10 = Inl ZeroDivisionError"
    using degenerate_range[OF e2, of 10] by (simp add: mapper_linear_axis)
  moreover
  have "scale_and_translation log_axis (PyInt 100, PyInt 100) 10 = Inl ZeroDivisionError"
    using degenerate_range[OF e3, of 10] by (simp add: m fl_numeral)
  ultimately show ?thesis using e e2 e3 by blast
qed

text \<open>
  The claim C2 as the specification words it fails on the log policy over the range
  \<open>(0, 0)\<close>: both bounds map to \<^verbatim>\<open>-inf\<close>, they compare equal, and the call returns the
  pair (NaN, NaN) without an error.
\<close>

theorem degenerate_range_log_zero_returns_nan:
  "py_eq (mapper log_axis (PyInt 0)) (mapper log_axis (PyInt 0))
   \<and> scale_and_translation log_axis (PyInt 0, PyInt 0) 10 = Inr (NaN, NaN)"
proof -
  have m: "mapper log_axis (PyInt 0) = PyFloat NInf"
    by (simp add: mapper_log_axis fl_0 val_0)
  show ?thesis
    by (simp add: m scale_and_translation_def num_truediv_def float_div_NaN_right)
qed


section \<open>The pixel index\<close>

text \<open>
  C4. For \<open>n \<ge> 1\<close> and a scale \<open>s\<close> other than zero, \<^verbatim>\<open>compute_index(n, (s, t))\<close> has exactly
  \<open>n\<close> elements, and its element at each pixel \<open>px\<close> of \<open>0, \<dots>, n - 1\<close> is the inverse mapper
  applied to the quotient \<open>(px - t) / s\<close>, which is defined.
\<close>

theorem compute_index_elements:
  assumes "1 \<le> n" "s \<noteq> Fin 0"
  shows "int (length (compute_index ax n (s, t))) = n
     \<and> (\<forall>px. 0 \<le> px \<and> px < n \<longrightarrow>
          (\<exists>q. py_truediv (float_sub (fl (of_int px)) t) s = Inr q
             \<and> compute_index ax n (s, t) ! nat px = inverse_mapper ax q))"
  using assms by (simp add: length_compute_index nth_compute_index py_truediv_nonzero)

theorem compute_index_elements_witness:
  "int (length (compute_index linear_axis 10 (fl 1, fl 0))) = 10
   \<and> compute_index linear_axis 10 (fl 1, fl 0) ! 3 = fl 3
   \<and> compute_index log_axis 4 (fl 1, fl 0) ! 2 = fl 100"
proof -
  have s: "fl 1 \<noteq> Fin 0" by (simp add: fl_1 float64_of_1_nonzero)
  have a: "int (length (compute_index linear_axis 10 (fl 1, fl 0))) = 10
     \<and> (\<forall>px. 0 \<le> px \<and> px < 10 \<longrightarrow>
          (\<exists>q. py_truediv (float_sub (fl (of_int px)) (fl 0)) (fl 1) = Inr q
             \<and> compute_index linear_axis 10 (fl 1, fl 0) ! nat px
                 = inverse_mapper linear_axis q))"
    using compute_index_elements[of 10 "fl 1" linear_axis "fl 0"] s by simp
  then have "\<exists>q. py_truediv (float_sub (fl (of_int 3)) (fl 0)) (fl 1) = Inr q
             \<and> compute_index linear_axis 10 (fl 1, fl 0) ! nat 3
                 = inverse_mapper linear_axis q"
    by (elim conjE allE[of _ 3]) simp
  then have l3: "compute_index linear_axis 10 (fl 1, fl 0) ! 3 = fl 3"
    by (auto simp add: py_truediv_def inverse_mapper_linear_axis fl_numeral fl_1 val_1
        fl_0 val_0 float64_of_1_nonzero)
  have "\<forall>px. 0 \<le> px \<and> px < 4 \<longrightarrow>
          (\<exists>q. py_truediv (float_sub (fl (of_int px)) (fl 0)) (fl 1) = Inr q
             \<and> compute_index log_axis 4 (fl 1, fl 0) ! nat px = inverse_mapper log_axis q)"
    using compute_index_elements[of 4 "fl 1" log_axis "fl 0"] s by simp
  then have "\<exists>q. py_truediv (float_sub (fl (of_int 2)) (fl 0)) (fl 1) = Inr q
             \<and> compute_index log_axis 4 (fl 1, fl 0) ! nat 2 = inverse_mapper log_axis q"
    by (elim allE[of _ 2]) simp
  then have g2: "compute_index log_axis 4 (fl 1, fl 0) ! 2 = fl 100"
    by (auto simp add: py_truediv_def inverse_mapper_log_axis fl_numeral fl_1 val_1
        fl_0 val_0 float64_of_1_nonzero)
  from a l3 g2 show ?thesis by blast
qed







section \<open>Canvas construction\<close>

text \<open>
  C7. An axis-type name other than \<^verbatim>\<open>'linear'\<close> and \<^verbatim>\<open>'log'\<close>, given for the x axis or for
  the y axis, makes the construction fail with the \<^verbatim>\<open>KeyError\<close> of the lookup; with two
  recognised names the construction succeeds and binds the instances the lookup holds
  for them, of the classes the names stand for.
\<close>

theorem Canvas_init_axis_type:
  "(x_axis_type \<notin> {''linear'', ''log''} \<longrightarrow>
      Canvas_init pw ph xr yr x_axis_type y_axis_type = Inl (KeyError x_axis_type))
   \<and> (x_axis_type \<in> {''linear'', ''log''} \<and> y_axis_type \<notin> {''linear'', ''log''} \<longrightarrow>
      Canvas_init pw ph xr yr x_axis_type y_axis_type = Inl (KeyError y_axis_type))
   \<and> (x_axis_type \<in> {''linear'', ''log''} \<and> y_axis_type \<in> {''linear'', ''log''} \<longrightarrow>
      (\<exists>c. Canvas_init pw ph xr yr x_axis_type y_axis_type = Inr c
         \<and> axis_lookup x_axis_type = Some (x_axis c)
         \<and> axis_lookup y_axis_type = Some (y_axis c)
         \<and> cls (x_axis c) = (if x_axis_type = ''linear'' then LinearAxis else LogAxis)
         \<and> cls (y_axis c) = (if y_axis_type = ''linear'' then LinearAxis else LogAxis)))"
  by (auto simp add: Canvas_init_def axis_lookup_getitem_def axis_lookup_def
      linear_axis_def log_axis_def)

theorem Canvas_init_axis_type_witness:
  "Canvas_init 600 600 None None ''bogus'' ''linear'' = Inl (KeyError ''bogus'')
   \<and> Canvas_init 600 600 None None ''linear'' ''bogus'' = Inl (KeyError ''bogus'')
   \<and> (\<exists>c. Canvas_init 10 10 (Some [PyInt 0, PyInt 9]) (Some [PyInt 0, PyInt 9]) ''linear'' ''log''
             = Inr c
        \<and> cls (x_axis c) = LinearAxis \<and> cls (y_axis c) = LogAxis)"
proof -
  have a: "Canvas_init 600 600 None None ''bogus'' ''linear'' = Inl (KeyError ''bogus'')"
    using Canvas_init_axis_type[of "''bogus''" 600 600 None None "''linear''"] by simp
  have b: "Canvas_init 600 600 None None ''linear'' ''bogus'' = Inl (KeyError ''bogus'')"
    using Canvas_init_axis_type[of "''linear''" 600 600 None None "''bogus''"] by simp
  have c: "\<exists>c. Canvas_init 10 10 (Some [PyInt 0, PyInt 9]) (Some [PyInt 0, PyInt 9]) ''linear'' ''log''
                 = Inr c
        \<and> cls (x_axis c) = LinearAxis \<and> cls (y_axis c) = LogAxis"
    using Canvas_init_axis_type[of "''linear''" 10 10 "Some [PyInt 0, PyInt 9]"
        "Some [PyInt 0, PyInt 9]" "''log''"]
    by auto
  from a b c show ?thesis by blast
qed


section \<open>Validation before dispatch\<close>

text \<open>
  C6. When the shape discovered for the source is not tabular, \<^verbatim>\<open>bypixel\<close> fails with
  \<^verbatim>\<open>ValueError("source must be tabular")\<close>; the calls it has made are the discovery and the
  test of the shape, so neither a validation nor the pipeline has been called.
\<close>

theorem bypixel_not_tabular:
  "discover ext source = Inr dshape \<Longrightarrow> \<not> istabular ext dshape \<Longrightarrow>
   bypixel ext source canvas glyph summary calls =
     (Inl (ValueError ''source must be tabular''), calls @ [Discover, IsTabular])"
  by (simp add: bypixel_def)

theorem bypixel_not_tabular_witness:
  "discover example_ext Scalar = Inr Scalar
   \<and> \<not> istabular example_ext Scalar
   \<and> bypixel example_ext Scalar example_canvas (requires_column ''x'') (requires_column ''y'') []
       = (Inl (ValueError ''source must be tabular''), [Discover, IsTabular])"
proof -
  have d: "discover example_ext Scalar = Inr Scalar" by (simp add: example_ext_def)
  have t: "\<not> istabular example_ext Scalar" by (simp add: example_ext_def)
  from d t
    bypixel_not_tabular[OF d t, of example_canvas "requires_column ''x''"
      "requires_column ''y''" "[]"]
  show ?thesis by simp
qed

text \<open>
  C5. When the glyph rejects the schema of a tabular source, \<^verbatim>\<open>bypixel\<close> fails with the
  exception of the glyph and has called neither the summary nor the pipeline. In
  general the pipeline is called exactly when the source is discovered and tabular
  and both validations succeed, and the calls made are always an initial part of:
  discovery, shape test, glyph validation, summary validation, pipeline.
\<close>

theorem bypixel_validates_before_dispatch:
  "(discover ext source = Inr dshape \<and> istabular ext dshape
      \<and> glyph (dshape_measure ext dshape) = Inl e
    \<longrightarrow> bypixel ext source canvas glyph summary calls
          = (Inl e, calls @ [Discover, IsTabular, GlyphValidate]))
   \<and> (Pipeline \<in> set (snd (bypixel ext source canvas glyph summary [])) \<longleftrightarrow>
        (\<exists>dshape. discover ext source = Inr dshape \<and> istabular ext dshape
           \<and> glyph (dshape_measure ext dshape) = Inr ()
           \<and> summary (dshape_measure ext dshape) = Inr ()))
   \<and> (\<exists>k. snd (bypixel ext source canvas glyph summary calls)
          = calls @ take k [Discover, IsTabular, GlyphValidate, SummaryValidate, Pipeline])"
proof (intro conjI)
  show "discover ext source = Inr dshape \<and> istabular ext dshape
      \<and> glyph (dshape_measure ext dshape) = Inl e
    \<longrightarrow> bypixel ext source canvas glyph summary calls
          = (Inl e, calls @ [Discover, IsTabular, GlyphValidate])"
    by (simp add: bypixel_def)
next
  show "Pipeline \<in> set (snd (bypixel ext source canvas glyph summary [])) \<longleftrightarrow>
        (\<exists>dshape. discover ext source = Inr dshape \<and> istabular ext dshape
           \<and> glyph (dshape_measure ext dshape) = Inr ()
           \<and> summary (dshape_measure ext dshape) = Inr ())"
    by (auto simp add: bypixel_def Let_def split: sum.splits if_splits)
next
  let ?order = "[Discover, IsTabular, GlyphValidate, SummaryValidate, Pipeline]"
  let ?made = "snd (bypixel ext source canvas glyph summary calls)"
  show "\<exists>k. ?made = calls @ take k ?order"
  proof (cases "discover ext source")
    case (Inl x)
    then have "?made = calls @ take 1 ?order" by (simp add: bypixel_def)
    then show ?thesis ..
  next
    case (Inr ds)
    show ?thesis
    proof (cases "istabular ext ds")
      case False
      with Inr have "?made = calls @ take 2 ?order" by (simp add: bypixel_def)
      then show ?thesis ..
    next
      case True
      show ?thesis
      proof (cases "glyph (dshape_measure ext ds)")
        case (Inl x)
        with Inr True have "?made = calls @ take 3 ?order" by (simp add: bypixel_def)
        then show ?thesis ..
      next
        case g: (Inr u)
        show ?thesis
        proof (cases "summary (dshape_measure ext ds)")
          case (Inl x)
          with Inr True g have "?made = calls @ take 4 ?order" by (simp add: bypixel_def)
          then show ?thesis ..
        next
          case (Inr v)
          with \<open>discover ext source = Inr ds\<close> True g
          have "?made = calls @ take 5 ?order" by (simp add: bypixel_def)
          then show ?thesis ..
        qed
      qed
    qed
  qed
qed

theorem bypixel_validates_before_dispatch_witness:
  "bypixel example_ext (Table [''y'']) example_canvas
       (requires_column ''x'') (requires_column ''y'') []
     = (Inl (ValueError ''x''), [Discover, IsTabular, GlyphValidate])
   \<and> Pipeline \<in> set (snd (bypixel example_ext (Table [''x'', ''y'']) example_canvas
                            (requires_column ''x'') (requires_column ''y'') []))
   \<and> Pipeline \<notin> set (snd (bypixel example_ext (Table [''x'']) example_canvas
                            (requires_column ''x'') (requires_column ''y'') []))"
proof (intro conjI)
  have "discover example_ext (Table [''y'']) = Inr (Table [''y''])
      \<and> istabular example_ext (Table [''y''])
      \<and> requires_column ''x'' (dshape_measure example_ext (Table [''y''])) = Inl (ValueError ''x'')"
    by (simp add: example_ext_def requires_column_def)
  then show "bypixel example_ext (Table [''y'']) example_canvas
       (requires_column ''x'') (requires_column ''y'') []
     = (Inl (ValueError ''x''), [Discover, IsTabular, GlyphValidate])"
    using bypixel_validates_before_dispatch[of example_ext "Table [''y'']" "Table [''y'']"
        "requires_column ''x''" "ValueError ''x''" example_canvas "requires_column ''y''" "[]"]
    by simp
next
  have "discover example_ext (Table [''x'', ''y'']) = Inr (Table [''x'', ''y''])
      \<and> istabular example_ext (Table [''x'', ''y''])
      \<and> requires_column ''x'' (dshape_measure example_ext (Table [''x'', ''y''])) = Inr ()
      \<and> requires_column ''y'' (dshape_measure example_ext (Table [''x'', ''y''])) = Inr ()"
    by (simp add: example_ext_def requires_column_def)
  then show "Pipeline \<in> set (snd (bypixel example_ext (Table [''x'', ''y'']) example_canvas
                            (requires_column ''x'') (requires_column ''y'') []))"
    using bypixel_validates_before_dispatch[of example_ext "Table [''x'', ''y'']" _
        "requires_column ''x''" _ example_canvas "requires_column ''y''" "[]"]
    by blast
next
  have "\<not> (\<exists>dshape. discover example_ext (Table [''x'']) = Inr dshape
        \<and> istabular example_ext dshape
        \<and> requires_column ''x'' (dshape_measure example_ext dshape) = Inr ()
        \<and> requires_column ''y'' (dshape_measure example_ext dshape) = Inr ())"
    by (simp add: example_ext_def requires_column_def)
  then show "Pipeline \<notin> set (snd (bypixel example_ext (Table [''x'']) example_canvas
                            (requires_column ''x'') (requires_column ''y'') []))"
    using bypixel_validates_before_dispatch[of example_ext "Table [''x'']" _
        "requires_column ''x''" _ example_canvas "requires_column ''y''" "[]"]
    by blast
qed

end
